theory Spec2Isabelle
  imports Main "HOL-Library.Sublist"
begin

section \<open>Python values\<close>

text \<open>
  A Python \<open>str\<close> is a sequence of Unicode code points, and \<open>len\<close> counts code points
  (not bytes), so a string is modelled as a list of code points. \<open>ascii\<close> turns an ASCII
  literal into such a list.
\<close>

type_synonym ustring = "nat list"

definition ascii :: "string \<Rightarrow> ustring" where
  "ascii s = map of_char s"

text \<open>
  \<open>str.strip()\<close> without arguments removes leading and trailing white space, where
  white space is what \<open>str.isspace\<close> accepts for a single code point.
\<close>

definition py_isspace :: "nat \<Rightarrow> bool" where
  "py_isspace c = (c \<in> set [0x09, 0x0A, 0x0B, 0x0C, 0x0D, 0x1C, 0x1D, 0x1E, 0x1F, 0x20,
     0x85, 0xA0, 0x1680, 0x2000, 0x2001, 0x2002, 0x2003, 0x2004, 0x2005, 0x2006, 0x2007,
     0x2008, 0x2009, 0x200A, 0x2028, 0x2029, 0x202F, 0x205F, 0x3000])"

definition strip :: "ustring \<Rightarrow> ustring" where
  "strip s = rev (dropWhile py_isspace (rev (dropWhile py_isspace s)))"

text \<open>\<open>sep.join(items)\<close>: the items in order, with \<open>sep\<close> between consecutive items.\<close>

fun py_join :: "ustring \<Rightarrow> ustring list \<Rightarrow> ustring" where
  "py_join sep [] = []"
| "py_join sep [x] = x"
| "py_join sep (x # y # ys) = x @ sep @ py_join sep (y # ys)"

text \<open>
  The value of \<open>request.json\<close>: any JSON document. JSON numbers are modelled as integers;
  a JSON object is an association list read with \<open>map_of\<close>.
\<close>

datatype json =
    JNull
  | JBool bool
  | JInt int
  | JStr ustring
  | JArr "json list"
  | JObj "(ustring \<times> json) list"

text \<open>Python truthiness, as \<open>not user_message\<close> tests it.\<close>

fun py_truthy :: "json \<Rightarrow> bool" where
  "py_truthy JNull = False"
| "py_truthy (JBool b) = b"
| "py_truthy (JInt n) = (n \<noteq> 0)"
| "py_truthy (JStr s) = (s \<noteq> [])"
| "py_truthy (JArr xs) = (xs \<noteq> [])"
| "py_truthy (JObj kvs) = (kvs \<noteq> [])"

fun py_type_name :: "json \<Rightarrow> ustring" where
  "py_type_name JNull = ascii ''NoneType''"
| "py_type_name (JBool b) = ascii ''bool''"
| "py_type_name (JInt n) = ascii ''int''"
| "py_type_name (JStr s) = ascii ''str''"
| "py_type_name (JArr xs) = ascii ''list''"
| "py_type_name (JObj kvs) = ascii ''dict''"

text \<open>An exception, with the text \<open>str(e)\<close> gives for it.\<close>

datatype pyexn = PyExn (exn_str: ustring)

text \<open>The \<open>AttributeError\<close> of reading attribute \<open>attr\<close> on an object of the named type.\<close>

definition no_attribute :: "ustring \<Rightarrow> string \<Rightarrow> pyexn" where
  "no_attribute type_name attr =
     PyExn ([0x27] @ type_name @ [0x27] @ ascii '' object has no attribute '' @ [0x27]
            @ ascii attr @ [0x27])"

definition attribute_error :: "json \<Rightarrow> string \<Rightarrow> pyexn" where
  "attribute_error v attr = no_attribute (py_type_name v) attr"

text \<open>\<open>data.get('message')\<close>: a dictionary answers \<open>None\<close> for a missing key; any other
  JSON value has no \<open>get\<close>.\<close>

fun dict_get :: "json \<Rightarrow> ustring \<Rightarrow> pyexn + json" where
  "dict_get (JObj kvs) k = Inr (case map_of kvs k of None \<Rightarrow> JNull | Some v \<Rightarrow> v)"
| "dict_get v k = Inl (attribute_error v ''get'')"

section \<open>Collaborators\<close>

text \<open>A retrieved document chunk: its text and its metadata, which the service never reads.\<close>

record doc =
  page_content :: ustring
  metadata :: "(ustring \<times> json) list"

text \<open>
  The object \<open>llm.invoke\<close> returns: the name of its type, its attributes by name, and
  what \<open>str\<close> renders it as. Reading an attribute the object does not have raises
  \<open>AttributeError\<close>; \<open>hasattr\<close> reads the attribute and answers whether that raised.
\<close>

record ai_response =
  class_name :: ustring
  attributes :: "(ustring \<times> ustring) list"
  rendering :: ustring

definition py_getattr :: "ai_response \<Rightarrow> string \<Rightarrow> pyexn + ustring" where
  "py_getattr obj attr =
     (case map_of (attributes obj) (ascii attr) of
        None \<Rightarrow> Inl (no_attribute (class_name obj) attr)
      | Some v \<Rightarrow> Inr v)"

definition py_hasattr :: "ai_response \<Rightarrow> string \<Rightarrow> bool" where
  "py_hasattr obj attr = (case py_getattr obj attr of Inl e \<Rightarrow> False | Inr v \<Rightarrow> True)"

text \<open>What a call of \<open>langdetect.detect\<close> does: return a language code, raise
  \<open>LangDetectException\<close>, or raise something else.\<close>

datatype detect_result =
    Detected ustring
  | LangDetectException pyexn
  | DetectError pyexn

type_synonym llm_handle = "ustring \<Rightarrow> pyexn + ai_response"
type_synonym retriever_handle = "json \<Rightarrow> pyexn + doc list"

text \<open>
  A prompt template with the two slots of the source's templates; \<open>format\<close> substitutes
  both in one pass, verbatim.
\<close>

datatype piece = Lit ustring | Context | Question

type_synonym prompt_template = "piece list"

fun render_piece :: "ustring \<Rightarrow> ustring \<Rightarrow> piece \<Rightarrow> ustring" where
  "render_piece ctx q (Lit s) = s"
| "render_piece ctx q Context = ctx"
| "render_piece ctx q Question = q"

definition format_template :: "prompt_template \<Rightarrow> ustring \<Rightarrow> ustring \<Rightarrow> ustring" where
  "format_template t ctx q = concat (map (render_piece ctx q) t)"

text \<open>
  What lies outside the module's globals: the language detector, and Python's rendering
  of a non-string value inside an f-string or a template slot (a string renders as itself).
\<close>

record environment =
  detect :: "ustring \<Rightarrow> detect_result"
  py_repr :: "json \<Rightarrow> ustring"

fun py_str :: "environment \<Rightarrow> json \<Rightarrow> ustring" where
  "py_str env (JStr s) = s"
| "py_str env v = py_repr env v"

section \<open>The module's globals\<close>

record components =
  llm :: "llm_handle option"
  retriever :: "retriever_handle option"
  format_docs :: "(doc list \<Rightarrow> ustring) option"
  QA_PROMPT_BN :: "prompt_template option"
  QA_PROMPT_EN :: "prompt_template option"

definition initial_components :: components where
  "initial_components =
     \<lparr>llm = None, retriever = None, format_docs = None, QA_PROMPT_BN = None,
      QA_PROMPT_EN = None\<rparr>"

text \<open>\<open>all([llm, retriever, format_docs, QA_PROMPT_BN, QA_PROMPT_EN])\<close>: each global is
  \<open>None\<close> or an object, and the objects are truthy.\<close>

definition components_loaded :: "components \<Rightarrow> bool" where
  "components_loaded g =
     (llm g \<noteq> None \<and> retriever g \<noteq> None \<and> format_docs g \<noteq> None \<and>
      QA_PROMPT_BN g \<noteq> None \<and> QA_PROMPT_EN g \<noteq> None)"

text \<open>Everything a run does besides returning: what it prints and which collaborators it
  calls, in order.\<close>

datatype event =
    Print ustring
  | DetectCall ustring
  | RetrieverInvoke json
  | FormatDocs "doc list"
  | PromptFormat prompt_template ustring ustring
  | LlmInvoke ustring

section \<open>\<open>format_docs_func\<close>\<close>

definition format_docs_func :: "doc list \<Rightarrow> ustring" where
  "format_docs_func docs = py_join [0x0A, 0x0A] (map page_content docs)"

section \<open>Prompt templates\<close>

text \<open>
  The two template literals of \<open>load_rag_components\<close>, split at their slots. The Bengali
  text is given by its code points, line by line; the lines after the first carry the four
  blanks of the source's indentation.
\<close>

definition template_bn_before_context :: ustring where
  "template_bn_before_context =
     [0x5B, 0x53, 0x59, 0x53, 0x54, 0x45, 0x4D, 0x5D, 0x3A, 0x20, 0x986, 0x9AA, 0x9A8,
      0x9BF, 0x20, 0x98F, 0x995, 0x99C, 0x9A8, 0x20, 0x9B8, 0x9B9, 0x9BE, 0x9AF, 0x9BC,
      0x995, 0x20, 0x9B8, 0x9B9, 0x995, 0x9BE, 0x9B0, 0x9C0, 0x20, 0x9AF, 0x9BF, 0x9A8,
      0x9BF, 0x20, 0x9B8, 0x9B0, 0x9CD, 0x9AC, 0x9A6, 0x9BE, 0x20, 0x9AC, 0x9BE, 0x982,
      0x9B2, 0x9BE, 0x20, 0x9AD, 0x9BE, 0x9B7, 0x9BE, 0x9AF, 0x9BC, 0x20, 0x989, 0x9A4,
      0x9CD, 0x9A4, 0x9B0, 0x20, 0x9A6, 0x9BF, 0x9AC, 0x9C7, 0x9A8, 0x964, 0xA] @
     [0xA] @
     [0x20, 0x20, 0x20, 0x20, 0x9A8, 0x9BF, 0x9AE, 0x9CD, 0x9A8, 0x9B2, 0x9BF, 0x996, 0x9BF,
      0x9A4, 0x20, 0x9AA, 0x9CD, 0x9B0, 0x9B8, 0x999, 0x9CD, 0x997, 0x20, 0x9AC, 0x9CD,
      0x9AF, 0x9AC, 0x9B9, 0x9BE, 0x9B0, 0x20, 0x995, 0x9B0, 0x9C7, 0x20, 0x9AA, 0x9CD,
      0x9B0, 0x9B6, 0x9CD, 0x9A8, 0x9C7, 0x9B0, 0x20, 0x989, 0x9A4, 0x9CD, 0x9A4, 0x9B0,
      0x20, 0x9A6, 0x9BF, 0x9A8, 0x3A, 0xA] @
     [0xA] @
     [0x20, 0x20, 0x20, 0x20]"

definition template_bn_before_question :: ustring where
  "template_bn_before_question =
     [0xA] @
     [0xA] @
     [0x20, 0x20, 0x20, 0x20, 0x9AF, 0x9A6, 0x9BF, 0x20, 0x986, 0x9AA, 0x9A8, 0x9BF, 0x20,
      0x989, 0x9A4, 0x9CD, 0x9A4, 0x9B0, 0x20, 0x9A8, 0x9BE, 0x20, 0x99C, 0x9BE, 0x9A8,
      0x9C7, 0x9A8, 0x2C, 0x20, 0x9A4, 0x9AC, 0x9C7, 0x20, 0x9B6, 0x9C1, 0x9A7, 0x9C1, 0x20,
      0x9AC, 0x9BE, 0x982, 0x9B2, 0x9BE, 0x9AF, 0x9BC, 0x20, 0x9AC, 0x9B2, 0x9C1, 0x9A8,
      0x20, 0x22, 0x986, 0x9AE, 0x9BF, 0x20, 0x98F, 0x987, 0x20, 0x9AA, 0x9CD, 0x9B0, 0x9B6,
      0x9CD, 0x9A8, 0x9C7, 0x9B0, 0x20, 0x989, 0x9A4, 0x9CD, 0x9A4, 0x9B0, 0x20, 0x99C,
      0x9BE, 0x9A8, 0x9BF, 0x20, 0x9A8, 0x9BE, 0x22, 0x964, 0xA] @
     [0xA] @
     [0x20, 0x20, 0x20, 0x20, 0x9A8, 0x9BF, 0x9B0, 0x9CD, 0x9A6, 0x9C7, 0x9B6, 0x9BE, 0x9AC,
      0x9B2, 0x9C0, 0x3A, 0xA] @
     [0x20, 0x20, 0x20, 0x20, 0x2D, 0x20, 0x985, 0x9AC, 0x9B6, 0x9CD, 0x9AF, 0x987, 0x20,
      0x9B6, 0x9C1, 0x9A7, 0x9C1, 0x9AE, 0x9BE, 0x9A4, 0x9CD, 0x9B0, 0x20, 0x9AC, 0x9BE,
      0x982, 0x9B2, 0x9BE, 0x20, 0x9AD, 0x9BE, 0x9B7, 0x9BE, 0x9AF, 0x9BC, 0x20, 0x989,
      0x9A4, 0x9CD, 0x9A4, 0x9B0, 0x20, 0x9A6, 0x9BF, 0x9A8, 0xA] @
     [0x20, 0x20, 0x20, 0x20, 0x2D, 0x20, 0x9B8, 0x9B0, 0x9CD, 0x9AC, 0x9CB, 0x99A, 0x9CD,
      0x99A, 0x20, 0x9A4, 0x9BF, 0x9A8, 0x99F, 0x9BF, 0x20, 0x9AC, 0x9BE, 0x995, 0x9CD,
      0x9AF, 0x20, 0x9AC, 0x9CD, 0x9AF, 0x9AC, 0x9B9, 0x9BE, 0x9B0, 0x20, 0x995, 0x9B0,
      0x9C1, 0x9A8, 0xA] @
     [0x20, 0x20, 0x20, 0x20, 0x2D, 0x20, 0x9B8, 0x982, 0x995, 0x9CD, 0x9B7, 0x9BF, 0x9AA,
      0x9CD, 0x9A4, 0x20, 0x98F, 0x9AC, 0x982, 0x20, 0x9B8, 0x9C1, 0x9A8, 0x9BF, 0x9B0,
      0x9CD, 0x9A6, 0x9BF, 0x9B7, 0x9CD, 0x99F, 0x20, 0x989, 0x9A4, 0x9CD, 0x9A4, 0x9B0,
      0x20, 0x9A6, 0x9BF, 0x9A8, 0xA] @
     [0x20, 0x20, 0x20, 0x20, 0x2D, 0x20, 0x9AA, 0x9CD, 0x9B0, 0x9A6, 0x9A4, 0x9CD, 0x9A4,
      0x20, 0x9A4, 0x9A5, 0x9CD, 0x9AF, 0x9C7, 0x9B0, 0x20, 0x9AC, 0x9BE, 0x987, 0x9B0,
      0x9C7, 0x20, 0x9AF, 0x9BE, 0x9AC, 0x9C7, 0x9A8, 0x20, 0x9A8, 0x9BE, 0xA] @
     [0xA] @
     [0x20, 0x20, 0x20, 0x20, 0x9AA, 0x9CD, 0x9B0, 0x9B6, 0x9CD, 0x9A8, 0x3A, 0x20]"

definition template_bn_after_question :: ustring where
  "template_bn_after_question =
     [0xA] @
     [0xA] @
     [0x20, 0x20, 0x20, 0x20, 0x989, 0x9A4, 0x9CD, 0x9A4, 0x9B0, 0x3A]"

definition template_bn :: prompt_template where
  "template_bn =
     [Lit template_bn_before_context, Context, Lit template_bn_before_question, Question,
      Lit template_bn_after_question]"

definition template_en_before_context :: ustring where
  \<open>template_en_before_context =
     ascii ''[SYSTEM]: You are a helpful assistant that MUST always respond in English.\<newline>'' @
     ascii ''\<newline>'' @
     ascii ''    Use the following context to answer the question:\<newline>'' @
     ascii ''\<newline>'' @
     ascii ''    ''\<close>

definition template_en_before_question :: ustring where
  \<open>template_en_before_question =
     ascii ''\<newline>'' @
     ascii ''\<newline>'' @
     ascii ''    If you don't know the answer, just say "I don't know the answer to this question" in English.\<newline>'' @
     ascii ''\<newline>'' @
     ascii ''    Instructions:\<newline>'' @
     ascii ''    - MUST answer only in English.\<newline>'' @
     ascii ''    - Use a maximum of three sentences.\<newline>'' @
     ascii ''    - Keep the answer concise and specific.\<newline>'' @
     ascii ''    - Do not go beyond the provided information.\<newline>'' @
     ascii ''\<newline>'' @
     ascii ''    Question: ''\<close>

definition template_en_after_question :: ustring where
  \<open>template_en_after_question =
     ascii ''\<newline>'' @
     ascii ''\<newline>'' @
     ascii ''    Answer:''\<close>

definition template_en :: prompt_template where
  "template_en =
     [Lit template_en_before_context, Context, Lit template_en_before_question, Question,
      Lit template_en_after_question]"



section \<open>\<open>load_rag_components\<close>\<close>



section \<open>The \<open>/chat\<close> handler\<close>

text \<open>A reply is the JSON body given to \<open>jsonify\<close> and the HTTP status (200 when the source
  gives none).\<close>

type_synonym reply = "json \<times> nat"

definition error_reply :: "ustring \<Rightarrow> nat \<Rightarrow> reply" where
  "error_reply msg status = (JObj [(ascii ''error'', JStr msg)], status)"

definition response_reply :: "ustring \<Rightarrow> reply" where
  "response_reply bot_response = (JObj [(ascii ''response'', JStr bot_response)], 200)"

text \<open>
  Language detection (the inner \<open>try\<close> around \<open>detect\<close>). \<open>strip\<close> exists on strings
  only; on any other value the attribute lookup raises, which the last \<open>except\<close> catches.
\<close>

fun detect_language :: "environment \<Rightarrow> json \<Rightarrow> ustring \<times> event list" where
  "detect_language env (JStr s) =
     (if length (strip s) > 10 then
        (case detect env s of
           Detected code \<Rightarrow>
             (code, [DetectCall s, Print (ascii ''Detected language: '' @ code)])
         | LangDetectException e \<Rightarrow>
             (ascii ''bn'',
              [DetectCall s, Print (ascii ''Language detection failed, defaulting to Bengali.'')])
         | DetectError lang_e \<Rightarrow>
             (ascii ''bn'',
              [DetectCall s,
               Print (ascii ''An unexpected error occurred during language detection: ''
                      @ exn_str lang_e @ ascii ''. Defaulting to Bengali.'')]))
      else (ascii ''bn'', [Print (ascii ''Detected language: '' @ ascii ''bn'')]))"
| "detect_language env v =
     (ascii ''bn'',
      [Print (ascii ''An unexpected error occurred during language detection: ''
              @ exn_str (attribute_error v ''strip'') @ ascii ''. Defaulting to Bengali.'')])"

text \<open>The choice of the template by the detected code.\<close>

definition choose_prompt ::
  "ustring \<Rightarrow> prompt_template \<Rightarrow> prompt_template \<Rightarrow> prompt_template \<times> event list" where
  "choose_prompt detected_lang bn en =
     (if detected_lang = ascii ''bn'' then (bn, [Print (ascii ''Using Bengali prompt.'')])
      else (en, [Print (ascii ''Using English prompt.'')]))"

text \<open>
  The text taken from the model's answer (the conditional expression after \<open>llm.invoke\<close>):
  the attribute is read only when \<open>hasattr\<close> answers yes. The step stands inside the
  \<open>try\<close>, so an exception it raised would be the result \<open>Inl\<close>.
\<close>

definition extract_text :: "ai_response \<Rightarrow> pyexn + ustring" where
  "extract_text ai_response =
     (if py_hasattr ai_response ''content'' then py_getattr ai_response ''content''
      else Inr (rendering ai_response))"

text \<open>
  The call of the model with the formatted prompt, and the reply built from it. The
  \<open>except\<close> catches what the call raises and what the extraction raises alike.
\<close>

definition invoke_llm :: "llm_handle \<Rightarrow> ustring \<Rightarrow> reply \<times> event list" where
  "invoke_llm l formatted_prompt =
     (case l formatted_prompt of
        Inl e \<Rightarrow>
          (error_reply (ascii ''LLM failed to generate response: '' @ exn_str e) 500,
           [LlmInvoke formatted_prompt,
            Print (ascii ''Error during LLM invocation: '' @ exn_str e)])
      | Inr ai_response \<Rightarrow>
          (case extract_text ai_response of
             Inl e \<Rightarrow>
               (error_reply (ascii ''LLM failed to generate response: '' @ exn_str e) 500,
                [LlmInvoke formatted_prompt,
                 Print (ascii ''Error during LLM invocation: '' @ exn_str e)])
           | Inr bot_response \<Rightarrow>
               (response_reply bot_response,
                [LlmInvoke formatted_prompt,
                 Print (ascii ''Sending response: '' @ bot_response)])))"

text \<open>The outermost \<open>except\<close>.\<close>

definition endpoint_error :: "pyexn \<Rightarrow> reply \<times> event list" where
  "endpoint_error e =
     (error_reply (exn_str e) 500, [Print (ascii ''Error in /chat endpoint: '' @ exn_str e)])"

text \<open>
  The handler, on the value of \<open>request.json\<close> (or the exception reading it raises), in
  environment \<open>env\<close> and with globals \<open>g\<close>: the reply, the events, and the globals
  afterwards.
\<close>

definition chat ::
  "environment \<Rightarrow> components \<Rightarrow> pyexn + json \<Rightarrow> reply \<times> event list \<times> components" where
  "chat env g request_json =
    (case (llm g, retriever g, format_docs g, QA_PROMPT_BN g, QA_PROMPT_EN g) of
       (Some l, Some r, Some f, Some bn, Some en) \<Rightarrow>
         (case request_json of
            Inl e \<Rightarrow> (fst (endpoint_error e), snd (endpoint_error e), g)
          | Inr data \<Rightarrow>
            (case dict_get data (ascii ''message'') of
               Inl e \<Rightarrow> (fst (endpoint_error e), snd (endpoint_error e), g)
             | Inr user_message \<Rightarrow>
               if \<not> py_truthy user_message then
                 (error_reply (ascii ''No 'message' found in request'') 400, [], g)
               else
                 (let ev0 = [Print (ascii ''Received query: '' @ py_str env user_message)];
                      (detected_lang, ev1) = detect_language env user_message
                  in case r user_message of
                    Inl e \<Rightarrow>
                      (error_reply (ascii ''Failed to retrieve relevant context.'') 500,
                       ev0 @ ev1 @ [RetrieverInvoke user_message,
                         Print (ascii ''Error retrieving documents: '' @ exn_str e)],
                       g)
                  | Inr retrieved_docs \<Rightarrow>
                      (let context_text = f retrieved_docs;
                           (prompt_template, ev2) = choose_prompt detected_lang bn en;
                           formatted_prompt =
                             format_template prompt_template context_text
                               (py_str env user_message);
                           (rep, ev3) = invoke_llm l formatted_prompt
                       in (rep,
                           ev0 @ ev1 @ [RetrieverInvoke user_message, FormatDocs retrieved_docs]
                             @ ev2
                             @ [PromptFormat prompt_template context_text
                                  (py_str env user_message)]
                             @ ev3,
                           g)))))
     | _ \<Rightarrow>
         (error_reply (ascii ''RAG components are not loaded. Check server logs.'') 500, [], g))"

section \<open>The extracted text in the specification's words\<close>

text \<open>
  The value of the answer's \<open>content\<close> attribute when it has one, the string rendering of
  the whole answer otherwise.
\<close>

definition envelope_text :: "ai_response \<Rightarrow> ustring" where
  "envelope_text a =
     (case map_of (attributes a) (ascii ''content'') of
        Some c \<Rightarrow> c
      | None \<Rightarrow> rendering a)"

section \<open>The context format in the specification's words\<close>

text \<open>
  The chunk texts in the given order, every text but the first preceded by two newline
  characters.
\<close>

definition blank_line_separated :: "ustring list \<Rightarrow> ustring" where
  "blank_line_separated texts =
     concat (map (\<lambda>(i, t). if i = 0 then t else [0x0A, 0x0A] @ t) (enumerate 0 texts))"

section \<open>Sample collaborators and requests\<close>

definition sample_docs :: "doc list" where
  "sample_docs =
     [\<lparr>page_content = ascii ''Section 1'', metadata = []\<rparr>,
      \<lparr>page_content = ascii ''Section 2'', metadata = []\<rparr>]"

definition sample_answer :: ai_response where
  "sample_answer =
     \<lparr>class_name = ascii ''AIMessage'',
      attributes = [(ascii ''content'', ascii ''Three years.'')],
      rendering = ascii ''AIMessage''\<rparr>"

definition english_environment :: environment where
  "english_environment = \<lparr>detect = (\<lambda>s. Detected (ascii ''en'')), py_repr = (\<lambda>v. [])\<rparr>"

definition undetecting_environment :: environment where
  "undetecting_environment =
     \<lparr>detect = (\<lambda>s. LangDetectException (PyExn (ascii ''No features in text.''))),
      py_repr = (\<lambda>v. [])\<rparr>"

definition bengali_environment :: environment where
  "bengali_environment = \<lparr>detect = (\<lambda>s. Detected (ascii ''bn'')), py_repr = (\<lambda>v. [])\<rparr>"

definition bare_answer :: ai_response where
  "bare_answer =
     \<lparr>class_name = ascii ''str'', attributes = [], rendering = ascii ''raw text''\<rparr>"

definition answering_llm :: llm_handle where
  "answering_llm = (\<lambda>prompt. Inr sample_answer)"


definition sample_retriever :: retriever_handle where
  "sample_retriever = (\<lambda>query. Inr sample_docs)"


definition failing_retriever :: retriever_handle where
  "failing_retriever = (\<lambda>query. Inl (PyExn (ascii ''index error'')))"

definition ready_components :: "llm_handle \<Rightarrow> retriever_handle \<Rightarrow> components" where
  "ready_components l r =
     \<lparr>llm = Some l, retriever = Some r, format_docs = Some format_docs_func,
      QA_PROMPT_BN = Some template_bn, QA_PROMPT_EN = Some template_en\<rparr>"



definition message_request :: "ustring \<Rightarrow> pyexn + json" where
  "message_request s = Inr (JObj [(ascii ''message'', JStr s)])"

definition long_question :: ustring where
  "long_question = ascii ''What is the punishment for theft under this act?''"

definition short_question :: ustring where
  "short_question = [0x986, 0x987, 0x9A8, 0x20, 0x995, 0x9BF, 0x3F]"

section \<open>The runs of the handler\<close>

text \<open>The four ways a run of \<open>chat\<close> ends before or at retrieval, and the run that
  reaches the model, each in closed form.\<close>

lemma chat_not_loaded:
  "\<not> components_loaded g \<Longrightarrow>
   chat env g req =
     (error_reply (ascii ''RAG components are not loaded. Check server logs.'') 500, [], g)"
  by (auto simp: chat_def components_loaded_def split: option.splits)

lemma chat_falsy:
  assumes "components_loaded g"
    and "dict_get data (ascii ''message'') = Inr user_message" "\<not> py_truthy user_message"
  shows "chat env g (Inr data) =
           (error_reply (ascii ''No 'message' found in request'') 400, [], g)"
  using assms by (auto simp: chat_def components_loaded_def split: option.splits)

lemma chat_retrieval_failed:
  assumes "llm g = Some l" "retriever g = Some r" "format_docs g = Some f"
    "QA_PROMPT_BN g = Some bn" "QA_PROMPT_EN g = Some en"
    and "dict_get data (ascii ''message'') = Inr user_message" "py_truthy user_message"
    and "r user_message = Inl e"
  shows "chat env g (Inr data) =
           (error_reply (ascii ''Failed to retrieve relevant context.'') 500,
            [Print (ascii ''Received query: '' @ py_str env user_message)]
              @ snd (detect_language env user_message)
              @ [RetrieverInvoke user_message,
                 Print (ascii ''Error retrieving documents: '' @ exn_str e)],
            g)"
  using assms by (simp add: chat_def Let_def split: prod.splits)

lemma chat_retrieved:
  assumes "llm g = Some l" "retriever g = Some r" "format_docs g = Some f"
    "QA_PROMPT_BN g = Some bn" "QA_PROMPT_EN g = Some en"
    and "dict_get data (ascii ''message'') = Inr user_message" "py_truthy user_message"
    and "r user_message = Inr docs"
  shows "chat env g (Inr data) =
           (fst (invoke_llm l
                   (format_template
                      (fst (choose_prompt (fst (detect_language env user_message)) bn en))
                      (f docs) (py_str env user_message))),
            [Print (ascii ''Received query: '' @ py_str env user_message)]
              @ snd (detect_language env user_message)
              @ [RetrieverInvoke user_message, FormatDocs docs]
              @ snd (choose_prompt (fst (detect_language env user_message)) bn en)
              @ [PromptFormat
                   (fst (choose_prompt (fst (detect_language env user_message)) bn en))
                   (f docs) (py_str env user_message)]
              @ snd (invoke_llm l
                       (format_template
                          (fst (choose_prompt (fst (detect_language env user_message)) bn en))
                          (f docs) (py_str env user_message))),
            g)"
  using assms by (simp add: chat_def Let_def split: prod.splits)

lemma chat_trace_cases:
  "fst (snd (chat env g req)) = [] \<or>
   (\<exists>e. fst (snd (chat env g req)) = snd (endpoint_error e)) \<or>
   (\<exists>l r f bn en data um.
      llm g = Some l \<and> retriever g = Some r \<and> format_docs g = Some f \<and>
      QA_PROMPT_BN g = Some bn \<and> QA_PROMPT_EN g = Some en \<and> req = Inr data \<and>
      dict_get data (ascii ''message'') = Inr um \<and> py_truthy um)"
  by (auto simp: chat_def split: option.splits sum.splits)

lemma extract_text_envelope_text: "extract_text a = Inr (envelope_text a)"
  by (simp add: extract_text_def py_hasattr_def py_getattr_def envelope_text_def
        split: option.splits)

lemma invoke_llm_Inr:
  "l p = Inr a \<Longrightarrow>
   invoke_llm l p =
     (response_reply (envelope_text a),
      [LlmInvoke p, Print (ascii ''Sending response: '' @ envelope_text a)])"
  by (simp add: invoke_llm_def extract_text_envelope_text)


lemma choose_prompt_code:
  "choose_prompt code bn en =
     (if code = ascii ''bn'' then (bn, [Print (ascii ''Using Bengali prompt.'')])
      else (en, [Print (ascii ''Using English prompt.'')]))"
  by (simp add: choose_prompt_def)

subsection \<open>Which events a step can record\<close>

lemma detect_language_events:
  "DetectCall u \<in> set (snd (detect_language env v)) \<Longrightarrow>
   (\<exists>s. v = JStr s \<and> u = s \<and> 10 < length (strip s))"
  by (cases v) (auto split: if_splits detect_result.splits)

lemma detect_language_event_kinds:
  "set (snd (detect_language env v)) \<subseteq> range Print \<union> range DetectCall"
  by (cases v) (auto split: detect_result.splits)

lemma choose_prompt_events:
  "set (snd (choose_prompt code bn en)) \<subseteq> range Print"
  by (auto simp: choose_prompt_def)

lemma invoke_llm_events:
  "set (snd (invoke_llm l p)) \<subseteq> insert (LlmInvoke p) (range Print)"
  by (auto simp: invoke_llm_def split: sum.splits)

lemma endpoint_error_events:
  "set (snd (endpoint_error e)) \<subseteq> range Print"
  by (auto simp: endpoint_error_def)

lemma chat_detect_calls:
  assumes "DetectCall u \<in> set (fst (snd (chat env g req)))"
  shows "\<exists>data. req = Inr data \<and> dict_get data (ascii ''message'') = Inr (JStr u) \<and>
           10 < length (strip u)"
proof -
  from chat_trace_cases [of env g req] consider
      "fst (snd (chat env g req)) = []"
    | e where "fst (snd (chat env g req)) = snd (endpoint_error e)"
    | l r f bn en data um where
        "llm g = Some l" "retriever g = Some r" "format_docs g = Some f"
        "QA_PROMPT_BN g = Some bn" "QA_PROMPT_EN g = Some en" "req = Inr data"
        "dict_get data (ascii ''message'') = Inr um" "py_truthy um"
    by blast
  then show ?thesis
  proof cases
    case 1
    with assms show ?thesis by simp
  next
    case 2
    with assms endpoint_error_events [of e] show ?thesis by auto
  next
    case 3
    have "DetectCall u \<in> set (snd (detect_language env um))"
    proof (cases "r um")
      case (Inl e)
      with assms show ?thesis
        unfolding \<open>req = Inr data\<close> chat_retrieval_failed [OF 3(1-5) 3(7,8) Inl]
        by simp
    next
      case (Inr docs)
      with assms choose_prompt_events invoke_llm_events show ?thesis
        unfolding \<open>req = Inr data\<close> chat_retrieved [OF 3(1-5) 3(7,8) Inr]
        by fastforce
    qed
    then show ?thesis
      using detect_language_events 3(6,7) by blast
  qed
qed

subsection \<open>The detector is only read through the detected code\<close>

lemma strip_long_nonempty: "10 < length (strip s) \<Longrightarrow> s \<noteq> []"
  by (auto simp: strip_def)

lemma py_str_detect_update: "py_str (env\<lparr>detect := d\<rparr>) v = py_str env v"
  by (cases v) simp_all

lemma detect_language_bn_detector:
  "fst (detect_language (env\<lparr>detect := \<lambda>s. Detected (ascii ''bn'')\<rparr>) v) = ascii ''bn''"
  by (cases v) simp_all

lemma chat_by_detection:
  assumes "detect_language env' um = detect_language env um"
    and "py_str env' um = py_str env um"
    and "dict_get data (ascii ''message'') = Inr um"
  shows "chat env' g (Inr data) = chat env g (Inr data)"
proof (cases "components_loaded g")
  case False
  then show ?thesis by (simp add: chat_not_loaded)
next
  case True
  then obtain l r f bn en where g:
    "llm g = Some l" "retriever g = Some r" "format_docs g = Some f"
    "QA_PROMPT_BN g = Some bn" "QA_PROMPT_EN g = Some en"
    by (auto simp: components_loaded_def)
  show ?thesis
  proof (cases "py_truthy um")
    case False
    with \<open>components_loaded g\<close> assms(3) show ?thesis
      by (simp add: chat_falsy)
  next
    case t: True
    show ?thesis
    proof (cases "r um")
      case (Inl e)
      show ?thesis
        by (simp only: chat_retrieval_failed [OF g assms(3) t Inl] assms(1,2))
    next
      case (Inr docs)
      show ?thesis
        by (simp only: chat_retrieved [OF g assms(3) t Inr] assms(1,2))
    qed
  qed
qed

lemma chat_reply_by_code:
  assumes "fst (detect_language env' um) = fst (detect_language env um)"
    and "py_str env' um = py_str env um"
    and "dict_get data (ascii ''message'') = Inr um"
  shows "fst (chat env' g (Inr data)) = fst (chat env g (Inr data))"
proof (cases "components_loaded g")
  case False
  then show ?thesis by (simp add: chat_not_loaded)
next
  case True
  then obtain l r f bn en where g:
    "llm g = Some l" "retriever g = Some r" "format_docs g = Some f"
    "QA_PROMPT_BN g = Some bn" "QA_PROMPT_EN g = Some en"
    by (auto simp: components_loaded_def)
  show ?thesis
  proof (cases "py_truthy um")
    case False
    with \<open>components_loaded g\<close> assms(3) show ?thesis
      by (simp add: chat_falsy)
  next
    case t: True
    show ?thesis
    proof (cases "r um")
      case (Inl e)
      show ?thesis
        by (simp add: chat_retrieval_failed [OF g assms(3) t Inl])
    next
      case (Inr docs)
      show ?thesis
        by (simp add: chat_retrieved [OF g assms(3) t Inr] assms(1,2))
    qed
  qed
qed

section \<open>Language routing\<close>

text \<open>
  Claim C1. When the detector is consulted and answers with a language code, the handler
  formats the Bengali template exactly when the code is \<open>bn\<close>, and the English template
  for every other code; the prompt sent to the model is that template filled with the
  formatted context and the message.
\<close>
theorem chat_selects_template_by_code:
  assumes "llm g = Some l" "retriever g = Some r" "format_docs g = Some f"
    "QA_PROMPT_BN g = Some bn" "QA_PROMPT_EN g = Some en"
    and "dict_get data (ascii ''message'') = Inr (JStr s)"
    and "10 < length (strip s)"
    and "detect env s = Detected code"
    and "r (JStr s) = Inr docs"
  shows "fst (detect_language env (JStr s)) = code \<and>
         fst (choose_prompt code bn en) = (if code = ascii ''bn'' then bn else en) \<and>
         chat env g (Inr data) =
           (fst (invoke_llm l
                  (format_template (if code = ascii ''bn'' then bn else en) (f docs) s)),
            [Print (ascii ''Received query: '' @ s), DetectCall s,
             Print (ascii ''Detected language: '' @ code),
             RetrieverInvoke (JStr s), FormatDocs docs,
             Print (if code = ascii ''bn'' then ascii ''Using Bengali prompt.''
                    else ascii ''Using English prompt.''),
             PromptFormat (if code = ascii ''bn'' then bn else en) (f docs) s]
            @ snd (invoke_llm l
                    (format_template (if code = ascii ''bn'' then bn else en) (f docs) s)),
            g)"
proof -
  have ne: "py_truthy (JStr s)"
    using assms(7) strip_long_nonempty by simp
  show ?thesis
    using assms(7,8)
    by (simp add: chat_retrieved [OF assms(1-6) ne assms(9)] choose_prompt_code)
qed

text \<open>
  Claim C2. For a message whose stripped length is at most 10 the detected language is
  \<open>bn\<close> whatever the message contains; the detector is not called (no run of the handler on
  such a message records a call of it, and replacing the detector changes nothing); and when
  the handler reaches the prompt it formats the Bengali template.
\<close>
theorem short_query_routes_to_bengali:
  assumes "length (strip s) \<le> 10"
  shows "detect_language env (JStr s) =
           (ascii ''bn'', [Print (ascii ''Detected language: '' @ ascii ''bn'')]) \<and>
         (dict_get data (ascii ''message'') = Inr (JStr s) \<longrightarrow>
            (\<forall>u. DetectCall u \<notin> set (fst (snd (chat env g (Inr data))))) \<and>
            chat (env\<lparr>detect := d\<rparr>) g (Inr data) = chat env g (Inr data)) \<and>
         (llm g = Some l \<and> retriever g = Some r \<and> format_docs g = Some f \<and>
          QA_PROMPT_BN g = Some bn \<and> QA_PROMPT_EN g = Some en \<and>
          dict_get data (ascii ''message'') = Inr (JStr s) \<and> s \<noteq> [] \<and>
          r (JStr s) = Inr docs \<longrightarrow>
            chat env g (Inr data) =
              (fst (invoke_llm l (format_template bn (f docs) s)),
               [Print (ascii ''Received query: '' @ s),
                Print (ascii ''Detected language: '' @ ascii ''bn''),
                RetrieverInvoke (JStr s), FormatDocs docs,
                Print (ascii ''Using Bengali prompt.''),
                PromptFormat bn (f docs) s]
               @ snd (invoke_llm l (format_template bn (f docs) s)),
               g))"
proof (intro conjI impI allI)
  show "detect_language env (JStr s) =
          (ascii ''bn'', [Print (ascii ''Detected language: '' @ ascii ''bn'')])"
    using assms by simp
next
  fix u
  assume d: "dict_get data (ascii ''message'') = Inr (JStr s)"
  show "DetectCall u \<notin> set (fst (snd (chat env g (Inr data))))"
  proof
    assume "DetectCall u \<in> set (fst (snd (chat env g (Inr data))))"
    from chat_detect_calls [OF this] d have "10 < length (strip s)" by auto
    with assms show False by simp
  qed
next
  assume d: "dict_get data (ascii ''message'') = Inr (JStr s)"
  have "detect_language (env\<lparr>detect := d\<rparr>) (JStr s) = detect_language env (JStr s)"
    using assms by simp
  then show "chat (env\<lparr>detect := d\<rparr>) g (Inr data) = chat env g (Inr data)"
    using py_str_detect_update d by (rule chat_by_detection)
next
  assume a: "llm g = Some l \<and> retriever g = Some r \<and> format_docs g = Some f \<and>
          QA_PROMPT_BN g = Some bn \<and> QA_PROMPT_EN g = Some en \<and>
          dict_get data (ascii ''message'') = Inr (JStr s) \<and> s \<noteq> [] \<and>
          r (JStr s) = Inr docs"
  then have g: "llm g = Some l" "retriever g = Some r" "format_docs g = Some f"
    "QA_PROMPT_BN g = Some bn" "QA_PROMPT_EN g = Some en"
    and d: "dict_get data (ascii ''message'') = Inr (JStr s)"
    and t: "py_truthy (JStr s)" and docs: "r (JStr s) = Inr docs"
    by simp_all
  note chat_retrieved [OF g d t docs, of env]
  with assms show "chat env g (Inr data) =
              (fst (invoke_llm l (format_template bn (f docs) s)),
               [Print (ascii ''Received query: '' @ s),
                Print (ascii ''Detected language: '' @ ascii ''bn''),
                RetrieverInvoke (JStr s), FormatDocs docs,
                Print (ascii ''Using Bengali prompt.''),
                PromptFormat bn (f docs) s]
               @ snd (invoke_llm l (format_template bn (f docs) s)),
               g)"
    by (simp add: choose_prompt_code)
qed

text \<open>
  Claim C3. When the detector raises on a message, be it \<open>LangDetectException\<close> or any
  other exception, the detected language is \<open>bn\<close>; the reply of the handler is the reply it
  gives under a detector that answers \<open>bn\<close>, so the failure never shows in the reply; and
  when retrieval succeeds the Bengali template is formatted.
\<close>
theorem detection_failure_defaults_to_bengali:
  assumes "detect env s = LangDetectException e \<or> detect env s = DetectError e"
  shows "fst (detect_language env (JStr s)) = ascii ''bn'' \<and>
         (dict_get data (ascii ''message'') = Inr (JStr s) \<longrightarrow>
            fst (chat env g (Inr data)) =
              fst (chat (env\<lparr>detect := \<lambda>s. Detected (ascii ''bn'')\<rparr>) g (Inr data))) \<and>
         (llm g = Some l \<and> retriever g = Some r \<and> format_docs g = Some f \<and>
          QA_PROMPT_BN g = Some bn \<and> QA_PROMPT_EN g = Some en \<and>
          dict_get data (ascii ''message'') = Inr (JStr s) \<and> s \<noteq> [] \<and>
          r (JStr s) = Inr docs \<longrightarrow>
            fst (chat env g (Inr data)) = fst (invoke_llm l (format_template bn (f docs) s)) \<and>
            PromptFormat bn (f docs) s \<in> set (fst (snd (chat env g (Inr data)))))"
proof (intro conjI impI)
  show bn: "fst (detect_language env (JStr s)) = ascii ''bn''"
    using assms by auto
  {
    assume d: "dict_get data (ascii ''message'') = Inr (JStr s)"
    have "fst (chat (env\<lparr>detect := \<lambda>s. Detected (ascii ''bn'')\<rparr>) g (Inr data)) =
          fst (chat env g (Inr data))"
      using d by (intro chat_reply_by_code [where um = "JStr s"])
                 (simp_all only: detect_language_bn_detector bn py_str_detect_update)
    then show "fst (chat env g (Inr data)) =
          fst (chat (env\<lparr>detect := \<lambda>s. Detected (ascii ''bn'')\<rparr>) g (Inr data))"
      by simp
  }
  {
    assume a: "llm g = Some l \<and> retriever g = Some r \<and> format_docs g = Some f \<and>
          QA_PROMPT_BN g = Some bn \<and> QA_PROMPT_EN g = Some en \<and>
          dict_get data (ascii ''message'') = Inr (JStr s) \<and> s \<noteq> [] \<and>
          r (JStr s) = Inr docs"
    then have g: "llm g = Some l" "retriever g = Some r" "format_docs g = Some f"
      "QA_PROMPT_BN g = Some bn" "QA_PROMPT_EN g = Some en"
      and d: "dict_get data (ascii ''message'') = Inr (JStr s)"
      and t: "py_truthy (JStr s)" and docs: "r (JStr s) = Inr docs"
      by simp_all
    note c = chat_retrieved [OF g d t docs, of env]
    show "fst (chat env g (Inr data)) = fst (invoke_llm l (format_template bn (f docs) s))"
      unfolding c bn by (simp add: choose_prompt_code)
    show "PromptFormat bn (f docs) s \<in> set (fst (snd (chat env g (Inr data))))"
      unfolding c bn by (simp add: choose_prompt_code)
  }
qed

section \<open>The context formatter\<close>

lemma py_join_append:
  "xs \<noteq> [] \<Longrightarrow> ys \<noteq> [] \<Longrightarrow> py_join sep (xs @ ys) = py_join sep xs @ sep @ py_join sep ys"
proof (induction sep xs rule: py_join.induct)
  case (1 sep)
  then show ?case by simp
next
  case (2 sep x)
  then show ?case by (cases ys) simp_all
next
  case (3 sep x y zs)
  then show ?case by simp
qed

lemma blank_line_separated_from:
  "concat (map (\<lambda>(i, t). if i = 0 then t else sep @ t) (enumerate (Suc n) ts)) =
   concat (map (\<lambda>t. sep @ t) ts)"
  by (induction ts arbitrary: n) simp_all

lemma py_join_Cons: "py_join sep (t # ts) = t @ concat (map (\<lambda>t. sep @ t) ts)"
  by (induction sep "t # ts" arbitrary: t ts rule: py_join.induct) simp_all

lemma py_join_blank_line_separated:
  "py_join [0x0A, 0x0A] ts = blank_line_separated ts"
proof (cases ts)
  case Nil
  then show ?thesis by (simp add: blank_line_separated_def)
next
  case (Cons t ts')
  then show ?thesis
    using blank_line_separated_from [of "[0x0A, 0x0A]" 0 ts']
    by (simp add: blank_line_separated_def py_join_Cons)
qed

text \<open>
  Claim C4. \<open>format_docs_func\<close> returns the chunk texts in the given order with exactly two
  newline characters between consecutive chunks: it agrees with the specification's
  wording, it splits at any point of the sequence into the two formatted parts joined by
  two newlines, and on the empty sequence it returns the empty string.
\<close>
theorem format_docs_func_blank_line_separated:
  "format_docs_func [] = [] \<and>
   format_docs_func docs = blank_line_separated (map page_content docs) \<and>
   (xs \<noteq> [] \<and> ys \<noteq> [] \<longrightarrow>
      format_docs_func (xs @ ys) = format_docs_func xs @ [0x0A, 0x0A] @ format_docs_func ys)"
proof (intro conjI impI)
  show "format_docs_func [] = []"
    by (simp add: format_docs_func_def)
  show "format_docs_func docs = blank_line_separated (map page_content docs)"
    by (simp only: format_docs_func_def py_join_blank_line_separated)
  assume "xs \<noteq> [] \<and> ys \<noteq> []"
  then have "map page_content xs \<noteq> []" "map page_content ys \<noteq> []"
    by simp_all
  from py_join_append [OF this]
  show "format_docs_func (xs @ ys) = format_docs_func xs @ [0x0A, 0x0A] @ format_docs_func ys"
    by (simp only: format_docs_func_def map_append)
qed

section \<open>The templates set up at start-up\<close>








section \<open>Error replies\<close>

text \<open>
  Claim C6, amended. In the ready state (components loaded), a request whose body is a JSON
  object that has no \<open>message\<close>, or has the empty string as \<open>message\<close>, gets the
  client-error reply (status 400) at once: the run calls no collaborator and prints
  nothing, and the globals are unchanged.
\<close>
theorem missing_message_client_error:
  assumes "components_loaded g"
    and "map_of kvs (ascii ''message'') = None \<or>
         map_of kvs (ascii ''message'') = Some (JStr [])"
  shows "chat env g (Inr (JObj kvs)) =
           (error_reply (ascii ''No 'message' found in request'') 400, [], g)"
proof -
  from assms(2) obtain user_message where
    "dict_get (JObj kvs) (ascii ''message'') = Inr user_message" "\<not> py_truthy user_message"
    by auto
  with assms(1) show ?thesis by (rule chat_falsy)
qed


text \<open>
  Claim C8. When the retriever raises on a request, the reply is
  \<open>{"error": "Failed to retrieve relevant context."}\<close> with status 500; the run neither
  formats a prompt nor calls the model; and the globals are unchanged, so the components
  are still loaded for the next request.
\<close>
theorem retrieval_failure_reply:
  assumes "llm g = Some l" "retriever g = Some r" "format_docs g = Some f"
    "QA_PROMPT_BN g = Some bn" "QA_PROMPT_EN g = Some en"
    and "dict_get data (ascii ''message'') = Inr user_message" "py_truthy user_message"
    and "r user_message = Inl e"
  shows "chat env g (Inr data) =
           (error_reply (ascii ''Failed to retrieve relevant context.'') 500,
            [Print (ascii ''Received query: '' @ py_str env user_message)]
              @ snd (detect_language env user_message)
              @ [RetrieverInvoke user_message,
                 Print (ascii ''Error retrieving documents: '' @ exn_str e)],
            g) \<and>
         (\<forall>p. LlmInvoke p \<notin> set (fst (snd (chat env g (Inr data))))) \<and>
         (\<forall>t c q. PromptFormat t c q \<notin> set (fst (snd (chat env g (Inr data))))) \<and>
         components_loaded (snd (snd (chat env g (Inr data))))"
  unfolding chat_retrieval_failed [OF assms]
  using detect_language_event_kinds [of env user_message] assms(1-5)
  by (auto simp: components_loaded_def)

text \<open>
  Claim C9. The extraction step returns a text for every answer object and never raises:
  the value of the \<open>content\<close> attribute when the object has one, and otherwise the string
  rendering of the object, although reading the absent attribute would raise
  \<open>AttributeError\<close>. Hence whenever the model returns an answer the handler replies with
  that text, never with the generation error.
\<close>
theorem text_extraction_total:
  "extract_text a = Inr (envelope_text a) \<and>
   (map_of (attributes a) (ascii ''content'') = Some c \<longrightarrow> extract_text a = Inr c) \<and>
   (map_of (attributes a) (ascii ''content'') = None \<longrightarrow>
      py_getattr a ''content'' = Inl (no_attribute (class_name a) ''content'') \<and>
      extract_text a = Inr (rendering a)) \<and>
   (l p = Inr a \<longrightarrow>
      invoke_llm l p =
        (response_reply (envelope_text a),
         [LlmInvoke p, Print (ascii ''Sending response: '' @ envelope_text a)])) \<and>
   (llm g = Some l \<and> retriever g = Some r \<and> format_docs g = Some f \<and>
    QA_PROMPT_BN g = Some bn \<and> QA_PROMPT_EN g = Some en \<and>
    dict_get data (ascii ''message'') = Inr user_message \<and> py_truthy user_message \<and>
    r user_message = Inr docs \<and>
    l (format_template (fst (choose_prompt (fst (detect_language env user_message)) bn en))
         (f docs) (py_str env user_message)) = Inr a \<longrightarrow>
      fst (chat env g (Inr data)) = response_reply (envelope_text a) \<and>
      fst (chat env g (Inr data)) \<noteq>
        error_reply (ascii ''LLM failed to generate response: '' @ m) 500)"
proof (intro conjI impI)
  show "extract_text a = Inr (envelope_text a)"
    by (rule extract_text_envelope_text)
  show "extract_text a = Inr c" if "map_of (attributes a) (ascii ''content'') = Some c"
    using that by (simp add: extract_text_envelope_text envelope_text_def)
  show "py_getattr a ''content'' = Inl (no_attribute (class_name a) ''content'')"
    if "map_of (attributes a) (ascii ''content'') = None"
    using that by (simp add: py_getattr_def)
  show "extract_text a = Inr (rendering a)"
    if "map_of (attributes a) (ascii ''content'') = None"
    using that by (simp add: extract_text_envelope_text envelope_text_def)
  show "invoke_llm l p =
        (response_reply (envelope_text a),
         [LlmInvoke p, Print (ascii ''Sending response: '' @ envelope_text a)])"
    if "l p = Inr a"
    using that by (rule invoke_llm_Inr)
  assume a: "llm g = Some l \<and> retriever g = Some r \<and> format_docs g = Some f \<and>
    QA_PROMPT_BN g = Some bn \<and> QA_PROMPT_EN g = Some en \<and>
    dict_get data (ascii ''message'') = Inr user_message \<and> py_truthy user_message \<and>
    r user_message = Inr docs \<and>
    l (format_template (fst (choose_prompt (fst (detect_language env user_message)) bn en))
         (f docs) (py_str env user_message)) = Inr a"
  then have g: "llm g = Some l" "retriever g = Some r" "format_docs g = Some f"
    "QA_PROMPT_BN g = Some bn" "QA_PROMPT_EN g = Some en"
    and d: "dict_get data (ascii ''message'') = Inr user_message"
    and t: "py_truthy user_message" and docs: "r user_message = Inr docs"
    by simp_all
  from a show reply: "fst (chat env g (Inr data)) = response_reply (envelope_text a)"
    by (simp add: chat_retrieved [OF g d t docs] invoke_llm_Inr)
  show "fst (chat env g (Inr data)) \<noteq>
        error_reply (ascii ''LLM failed to generate response: '' @ m) 500"
    unfolding reply by (simp add: response_reply_def error_reply_def)
qed

text \<open>
  Claim C10. The readiness check comes first: while the components are not loaded, every
  request, whatever its body, gets the components-not-loaded reply; hence a reply with the
  missing-message error is only ever given with the components loaded.
\<close>
theorem readiness_check_precedes_validation:
  "(\<not> components_loaded g \<longrightarrow>
      chat env g req =
        (error_reply (ascii ''RAG components are not loaded. Check server logs.'') 500, [], g)) \<and>
   (fst (chat env g req) = error_reply (ascii ''No 'message' found in request'') 400 \<longrightarrow>
      components_loaded g)"
proof (intro conjI impI)
  show "\<not> components_loaded g \<Longrightarrow> chat env g req =
        (error_reply (ascii ''RAG components are not loaded. Check server logs.'') 500, [], g)"
    by (rule chat_not_loaded)
  assume r: "fst (chat env g req) = error_reply (ascii ''No 'message' found in request'') 400"
  show "components_loaded g"
  proof (rule ccontr)
    assume "\<not> components_loaded g"
    then have "snd (fst (chat env g req)) = 500"
      by (simp add: chat_not_loaded error_reply_def)
    moreover from r have "snd (fst (chat env g req)) = 400"
      by (simp add: error_reply_def)
    ultimately show False by simp
  qed
qed

section \<open>Concrete runs\<close>

lemma invoke_answering_llm:
  "invoke_llm answering_llm p =
     (response_reply (ascii ''Three years.''),
      [LlmInvoke p, Print (ascii ''Sending response: '' @ ascii ''Three years.'')])"
  by (simp add: invoke_llm_Inr [where a = sample_answer] answering_llm_def envelope_text_def
        sample_answer_def)

lemma long_question_stripped: "10 < length (strip long_question)"
  by (simp add: long_question_def strip_def py_isspace_def ascii_def)

lemma short_question_stripped: "length (strip short_question) \<le> 10"
  by (simp add: short_question_def strip_def py_isspace_def)

theorem chat_selects_template_by_code_witness:
  "chat english_environment (ready_components answering_llm sample_retriever)
     (message_request long_question) =
   (response_reply (ascii ''Three years.''),
    [Print (ascii ''Received query: '' @ long_question), DetectCall long_question,
     Print (ascii ''Detected language: '' @ ascii ''en''),
     RetrieverInvoke (JStr long_question), FormatDocs sample_docs,
     Print (ascii ''Using English prompt.''),
     PromptFormat template_en (format_docs_func sample_docs) long_question,
     LlmInvoke (format_template template_en (format_docs_func sample_docs) long_question),
     Print (ascii ''Sending response: '' @ ascii ''Three years.'')],
    ready_components answering_llm sample_retriever)"
proof -
  have ne: "ascii ''en'' \<noteq> ascii ''bn''"
    by (simp add: ascii_def)
  from chat_selects_template_by_code
         [where g = "ready_components answering_llm sample_retriever"
            and l = answering_llm and r = sample_retriever and f = format_docs_func
            and bn = template_bn and en = template_en
            and data = "JObj [(ascii ''message'', JStr long_question)]"
            and s = long_question and env = english_environment and code = "ascii ''en''"
            and docs = sample_docs]
       long_question_stripped ne
  show ?thesis
    by (simp add: ready_components_def message_request_def english_environment_def
          sample_retriever_def invoke_answering_llm)
qed

theorem short_query_routes_to_bengali_witness:
  "detect_language english_environment (JStr short_question) =
     (ascii ''bn'', [Print (ascii ''Detected language: '' @ ascii ''bn'')]) \<and>
   DetectCall short_question \<notin>
     set (fst (snd (chat english_environment (ready_components answering_llm sample_retriever)
                      (message_request short_question)))) \<and>
   chat english_environment (ready_components answering_llm sample_retriever)
     (message_request short_question) =
   (response_reply (ascii ''Three years.''),
    [Print (ascii ''Received query: '' @ short_question),
     Print (ascii ''Detected language: '' @ ascii ''bn''),
     RetrieverInvoke (JStr short_question), FormatDocs sample_docs,
     Print (ascii ''Using Bengali prompt.''),
     PromptFormat template_bn (format_docs_func sample_docs) short_question,
     LlmInvoke (format_template template_bn (format_docs_func sample_docs) short_question),
     Print (ascii ''Sending response: '' @ ascii ''Three years.'')],
    ready_components answering_llm sample_retriever)"
proof -
  let ?g = "ready_components answering_llm sample_retriever"
  let ?data = "JObj [(ascii ''message'', JStr short_question)]"
  note th = short_query_routes_to_bengali [OF short_question_stripped,
          where g = ?g and l = answering_llm and r = sample_retriever and f = format_docs_func
            and bn = template_bn and en = template_en and data = ?data
            and env = english_environment and docs = sample_docs
            and d = "detect bengali_environment"]
  have d: "dict_get ?data (ascii ''message'') = Inr (JStr short_question)"
    by simp
  have h: "llm ?g = Some answering_llm \<and> retriever ?g = Some sample_retriever \<and>
           format_docs ?g = Some format_docs_func \<and> QA_PROMPT_BN ?g = Some template_bn \<and>
           QA_PROMPT_EN ?g = Some template_en \<and>
           dict_get ?data (ascii ''message'') = Inr (JStr short_question) \<and>
           short_question \<noteq> [] \<and> sample_retriever (JStr short_question) = Inr sample_docs"
    by (simp add: ready_components_def sample_retriever_def short_question_def)
  have a: "detect_language english_environment (JStr short_question) =
             (ascii ''bn'', [Print (ascii ''Detected language: '' @ ascii ''bn'')])"
    using th by (rule conjunct1)
  have b: "DetectCall short_question \<notin> set (fst (snd (chat english_environment ?g (Inr ?data))))"
    using th [THEN conjunct2, THEN conjunct1, THEN mp, OF d] by blast
  have c: "chat english_environment ?g (Inr ?data) =
      (fst (invoke_llm answering_llm
              (format_template template_bn (format_docs_func sample_docs) short_question)),
       [Print (ascii ''Received query: '' @ short_question),
        Print (ascii ''Detected language: '' @ ascii ''bn''),
        RetrieverInvoke (JStr short_question), FormatDocs sample_docs,
        Print (ascii ''Using Bengali prompt.''),
        PromptFormat template_bn (format_docs_func sample_docs) short_question]
       @ snd (invoke_llm answering_llm
                (format_template template_bn (format_docs_func sample_docs) short_question)),
       ?g)"
    using th [THEN conjunct2, THEN conjunct2, THEN mp, OF h] .
  show ?thesis
    using a b c unfolding message_request_def invoke_answering_llm by simp
qed


theorem detection_failure_defaults_to_bengali_witness:
  "fst (detect_language undetecting_environment (JStr long_question)) = ascii ''bn'' \<and>
   fst (chat undetecting_environment (ready_components answering_llm sample_retriever)
          (message_request long_question)) =
   fst (chat bengali_environment (ready_components answering_llm sample_retriever)
          (message_request long_question)) \<and>
   fst (chat undetecting_environment (ready_components answering_llm sample_retriever)
          (message_request long_question)) = response_reply (ascii ''Three years.'') \<and>
   PromptFormat template_bn (format_docs_func sample_docs) long_question \<in>
     set (fst (snd (chat undetecting_environment
                      (ready_components answering_llm sample_retriever)
                      (message_request long_question))))"
proof -
  let ?g = "ready_components answering_llm sample_retriever"
  let ?data = "JObj [(ascii ''message'', JStr long_question)]"
  have raised:
    "detect undetecting_environment long_question =
       LangDetectException (PyExn (ascii ''No features in text.'')) \<or>
     detect undetecting_environment long_question =
       DetectError (PyExn (ascii ''No features in text.''))"
    by (simp add: undetecting_environment_def)
  note th = detection_failure_defaults_to_bengali [OF raised,
          where g = ?g and l = answering_llm and r = sample_retriever and f = format_docs_func
            and bn = template_bn and en = template_en and data = ?data
            and docs = sample_docs]
  have d: "dict_get ?data (ascii ''message'') = Inr (JStr long_question)"
    by simp
  have ne: "long_question \<noteq> []"
    using long_question_stripped strip_long_nonempty by blast
  have h: "llm ?g = Some answering_llm \<and> retriever ?g = Some sample_retriever \<and>
           format_docs ?g = Some format_docs_func \<and> QA_PROMPT_BN ?g = Some template_bn \<and>
           QA_PROMPT_EN ?g = Some template_en \<and>
           dict_get ?data (ascii ''message'') = Inr (JStr long_question) \<and>
           long_question \<noteq> [] \<and> sample_retriever (JStr long_question) = Inr sample_docs"
    using ne by (simp add: ready_components_def sample_retriever_def)
  have e: "undetecting_environment\<lparr>detect := \<lambda>s. Detected (ascii ''bn'')\<rparr> =
           bengali_environment"
    by (simp add: undetecting_environment_def bengali_environment_def)
  show ?thesis
    using th [THEN conjunct1] th [THEN conjunct2, THEN conjunct1, THEN mp, OF d]
      th [THEN conjunct2, THEN conjunct2, THEN mp, OF h]
    unfolding message_request_def e invoke_answering_llm by simp
qed

theorem format_docs_func_blank_line_separated_witness:
  "format_docs_func [] = [] \<and>
   format_docs_func sample_docs =
     ascii ''Section 1'' @ [0x0A, 0x0A] @ ascii ''Section 2''"
proof -
  let ?d1 = "\<lparr>page_content = ascii ''Section 1'', metadata = []\<rparr>"
  let ?d2 = "\<lparr>page_content = ascii ''Section 2'', metadata = []\<rparr>"
  note th = format_docs_func_blank_line_separated
              [where docs = sample_docs and xs = "[?d1]" and ys = "[?d2]"]
  have ne: "[?d1] \<noteq> [] \<and> [?d2] \<noteq> []"
    by simp
  have one: "format_docs_func [d] = page_content d" for d
    by (simp add: format_docs_func_def)
  show ?thesis
    using th [THEN conjunct1] th [THEN conjunct2, THEN conjunct2, THEN mp, OF ne]
    by (simp add: sample_docs_def one)
qed



lemma detect_english_long:
  "detect_language english_environment (JStr long_question) =
     (ascii ''en'',
      [DetectCall long_question, Print (ascii ''Detected language: '' @ ascii ''en'')])"
  using long_question_stripped by (simp add: english_environment_def)



theorem missing_message_client_error_witness:
  "chat english_environment (ready_components answering_llm sample_retriever)
     (Inr (JObj [])) =
     (error_reply (ascii ''No 'message' found in request'') 400, [],
      ready_components answering_llm sample_retriever) \<and>
   chat english_environment (ready_components answering_llm sample_retriever)
     (message_request []) =
     (error_reply (ascii ''No 'message' found in request'') 400, [],
      ready_components answering_llm sample_retriever)"
proof -
  have l: "components_loaded (ready_components answering_llm sample_retriever)"
    by (simp add: components_loaded_def ready_components_def)
  have a: "map_of [] (ascii ''message'') = None \<or>
           map_of ([] :: (ustring \<times> json) list) (ascii ''message'') = Some (JStr [])"
    by simp
  have b: "map_of [(ascii ''message'', JStr [])] (ascii ''message'') = None \<or>
           map_of [(ascii ''message'', JStr [])] (ascii ''message'') = Some (JStr [])"
    by simp
  show ?thesis
    using missing_message_client_error [OF l a, of english_environment]
      missing_message_client_error [OF l b, of english_environment]
    by (simp add: message_request_def)
qed

theorem missing_message_non_object_counterexample:
  "components_loaded (ready_components answering_llm sample_retriever) \<and>
   chat english_environment (ready_components answering_llm sample_retriever) (Inr JNull) =
     (error_reply
        ([0x27] @ ascii ''NoneType'' @ [0x27] @ ascii '' object has no attribute '' @ [0x27]
         @ ascii ''get'' @ [0x27]) 500,
      [Print (ascii ''Error in /chat endpoint: '' @ [0x27] @ ascii ''NoneType'' @ [0x27]
              @ ascii '' object has no attribute '' @ [0x27] @ ascii ''get'' @ [0x27])],
      ready_components answering_llm sample_retriever) \<and>
   snd (fst (chat english_environment (ready_components answering_llm sample_retriever)
               (Inr JNull))) \<noteq> 400 \<and>
   snd (fst (chat english_environment (ready_components answering_llm sample_retriever)
               (Inr (JArr [])))) = 500"
  by (simp add: chat_def ready_components_def components_loaded_def endpoint_error_def
        error_reply_def attribute_error_def no_attribute_def)




theorem retrieval_failure_reply_witness:
  "chat english_environment (ready_components answering_llm failing_retriever)
     (message_request long_question) =
     (error_reply (ascii ''Failed to retrieve relevant context.'') 500,
      [Print (ascii ''Received query: '' @ long_question), DetectCall long_question,
       Print (ascii ''Detected language: '' @ ascii ''en''),
       RetrieverInvoke (JStr long_question),
       Print (ascii ''Error retrieving documents: '' @ ascii ''index error'')],
      ready_components answering_llm failing_retriever) \<and>
   components_loaded
     (snd (snd (chat english_environment (ready_components answering_llm failing_retriever)
                  (message_request long_question))))"
proof -
  let ?g = "ready_components answering_llm failing_retriever"
  let ?data = "JObj [(ascii ''message'', JStr long_question)]"
  have ne: "py_truthy (JStr long_question)"
    using long_question_stripped strip_long_nonempty by simp
  have d: "dict_get ?data (ascii ''message'') = Inr (JStr long_question)"
    by simp
  have f: "failing_retriever (JStr long_question) = Inl (PyExn (ascii ''index error''))"
    by (simp add: failing_retriever_def)
  have g: "llm ?g = Some answering_llm" "retriever ?g = Some failing_retriever"
    "format_docs ?g = Some format_docs_func" "QA_PROMPT_BN ?g = Some template_bn"
    "QA_PROMPT_EN ?g = Some template_en"
    by (simp_all add: ready_components_def)
  note th = retrieval_failure_reply [OF g d ne f, of english_environment]
  have th': "chat english_environment ?g (Inr ?data) =
           (error_reply (ascii ''Failed to retrieve relevant context.'') 500,
            [Print (ascii ''Received query: '' @ py_str english_environment (JStr long_question))]
              @ snd (detect_language english_environment (JStr long_question))
              @ [RetrieverInvoke (JStr long_question),
                 Print (ascii ''Error retrieving documents: ''
                        @ exn_str (PyExn (ascii ''index error'')))],
            ?g) \<and>
         components_loaded (snd (snd (chat english_environment ?g (Inr ?data))))"
    using th by blast
  show ?thesis
  proof (intro conjI)
    show "chat english_environment ?g (message_request long_question) =
     (error_reply (ascii ''Failed to retrieve relevant context.'') 500,
      [Print (ascii ''Received query: '' @ long_question), DetectCall long_question,
       Print (ascii ''Detected language: '' @ ascii ''en''),
       RetrieverInvoke (JStr long_question),
       Print (ascii ''Error retrieving documents: '' @ ascii ''index error'')],
      ?g)"
      using th' [THEN conjunct1] unfolding message_request_def detect_english_long by simp
    show "components_loaded
            (snd (snd (chat english_environment ?g (message_request long_question))))"
      using th' [THEN conjunct2] unfolding message_request_def .
  qed
qed

theorem text_extraction_total_witness:
  "extract_text sample_answer = Inr (ascii ''Three years.'') \<and>
   py_getattr bare_answer ''content'' = Inl (no_attribute (ascii ''str'') ''content'') \<and>
   extract_text bare_answer = Inr (ascii ''raw text'') \<and>
   fst (chat english_environment (ready_components answering_llm sample_retriever)
          (message_request long_question)) = response_reply (ascii ''Three years.'')"
proof -
  let ?g = "ready_components answering_llm sample_retriever"
  let ?data = "JObj [(ascii ''message'', JStr long_question)]"
  have ne: "py_truthy (JStr long_question)"
    using long_question_stripped strip_long_nonempty by simp
  have s: "map_of (attributes sample_answer) (ascii ''content'') = Some (ascii ''Three years.'')"
    by (simp add: sample_answer_def)
  have n: "map_of (attributes bare_answer) (ascii ''content'') = None"
    by (simp add: bare_answer_def)
  have a: "extract_text sample_answer = Inr (ascii ''Three years.'')"
    using text_extraction_total
            [where a = sample_answer, THEN conjunct2, THEN conjunct1, THEN mp, OF s] .
  have b: "py_getattr bare_answer ''content'' = Inl (no_attribute (ascii ''str'') ''content'') \<and>
           extract_text bare_answer = Inr (ascii ''raw text'')"
    using text_extraction_total
            [where a = bare_answer, THEN conjunct2, THEN conjunct2, THEN conjunct1, THEN mp,
             OF n]
    by (simp add: bare_answer_def)
  have h: "llm ?g = Some answering_llm \<and> retriever ?g = Some sample_retriever \<and>
      format_docs ?g = Some format_docs_func \<and>
      QA_PROMPT_BN ?g = Some template_bn \<and> QA_PROMPT_EN ?g = Some template_en \<and>
      dict_get ?data (ascii ''message'') = Inr (JStr long_question) \<and>
      py_truthy (JStr long_question) \<and>
      sample_retriever (JStr long_question) = Inr sample_docs \<and>
      answering_llm
        (format_template
           (fst (choose_prompt (fst (detect_language english_environment (JStr long_question)))
                   template_bn template_en))
           (format_docs_func sample_docs) (py_str english_environment (JStr long_question))) =
        Inr sample_answer"
    using ne by (simp add: ready_components_def sample_retriever_def answering_llm_def)
  have c: "fst (chat english_environment ?g (Inr ?data)) =
             response_reply (envelope_text sample_answer)"
    using text_extraction_total
            [where a = sample_answer and g = ?g and l = answering_llm
               and r = sample_retriever and f = format_docs_func and bn = template_bn
               and en = template_en and data = ?data and user_message = "JStr long_question"
               and docs = sample_docs and env = english_environment,
             THEN conjunct2, THEN conjunct2, THEN conjunct2, THEN conjunct2, THEN mp, OF h,
             THEN conjunct1] .
  show ?thesis
    using a b c by (simp add: message_request_def envelope_text_def sample_answer_def)
qed

theorem readiness_check_precedes_validation_witness:
  "chat english_environment initial_components (message_request []) =
     (error_reply (ascii ''RAG components are not loaded. Check server logs.'') 500, [],
      initial_components) \<and>
   components_loaded (ready_components answering_llm sample_retriever)"
proof -
  have n: "\<not> components_loaded initial_components"
    by (simp add: components_loaded_def initial_components_def)
  have m: "fst (chat english_environment (ready_components answering_llm sample_retriever)
                  (message_request [])) =
           error_reply (ascii ''No 'message' found in request'') 400"
    by (simp add: chat_falsy [where user_message = "JStr []"] message_request_def
          components_loaded_def ready_components_def)
  show ?thesis
    using readiness_check_precedes_validation
            [where g = initial_components and env = english_environment
               and req = "message_request []", THEN conjunct1, THEN mp, OF n]
          readiness_check_precedes_validation
            [where g = "ready_components answering_llm sample_retriever"
               and env = english_environment
               and req = "message_request []", THEN conjunct2, THEN mp, OF m]
    by simp
qed

end
